theory Spec2Isabelle
  imports Main
begin

section \<open>The theme manager of qt/aqt/theme.py\<close>

text \<open>
  The module holds one object, \<open>theme_manager\<close>, and reads three collaborators: the
  colour table \<open>aqt.colors.colors\<close>, the platform flags \<open>isWin\<close>, \<open>isMac\<close> and
  \<open>platform.release()\<close>, and the filter hook \<open>gui_hooks.style_did_init\<close>. The
  toolkit objects it creates (icons, colours, a palette) and the application object it
  changes are modelled symbolically.
\<close>

subsection \<open>Toolkit objects\<close>

text \<open>
  What an icon shows: the resource \<open>QIcon(path)\<close> loads, a pixmap of it at a size
  (\<open>icon.pixmap(w, h).toImage()\<close>), or such a picture with its pixels inverted
  (\<open>img.invertPixels()\<close>).
\<close>

datatype pixels = Resource string | Pixmap pixels nat nat | Inverted pixels

text \<open>
  A \<open>QIcon\<close> object. The module never changes an icon after creating it, so an object
  is its identity (\<open>obj_id\<close>, what Python's \<open>is\<close> compares) and its content.
\<close>

record QIcon =
  obj_id :: nat
  content :: pixels

datatype GlobalColor = red

datatype color_source = FromString string | FromGlobal GlobalColor

text \<open>
  A \<open>QColor\<close>: what it was constructed from, and the alpha channel when \<open>setAlpha\<close>
  has been called on it.
\<close>

record QColor =
  source :: color_source
  alpha :: "nat option"

definition QColor_str :: "string \<Rightarrow> QColor" where
  "QColor_str c = \<lparr>source = FromString c, alpha = None\<rparr>"

definition QColor_global :: "GlobalColor \<Rightarrow> QColor" where
  "QColor_global g = \<lparr>source = FromGlobal g, alpha = None\<rparr>"

definition setAlpha :: "nat \<Rightarrow> QColor \<Rightarrow> QColor" where
  "setAlpha a c = c\<lparr>alpha := Some a\<rparr>"

datatype ColorGroup = Active | Inactive | Disabled

datatype ColorRole =
    WindowText | Button | Light | Midlight | Dark | Mid | Text | BrightText | ButtonText
  | Base | Window | Shadow | Highlight | HighlightedText | Link | LinkVisited
  | AlternateBase | NoRole | ToolTipBase | ToolTipText | PlaceholderText

definition all_roles :: "ColorRole list" where
  "all_roles = [WindowText, Button, Light, Midlight, Dark, Mid, Text, BrightText, ButtonText,
     Base, Window, Shadow, Highlight, HighlightedText, Link, LinkVisited,
     AlternateBase, NoRole, ToolTipBase, ToolTipText, PlaceholderText]"

text \<open>
  A palette gives each slot (group and role) the colour set for it, \<open>None\<close> where the
  toolkit's default stands. \<open>QPalette()\<close> has every slot at its default.
\<close>

type_synonym QPalette = "ColorGroup \<times> ColorRole \<Rightarrow> QColor option"

definition QPalette_new :: QPalette where
  "QPalette_new = (\<lambda>slot. None)"

text \<open>\<open>palette.setColor(role, color)\<close> sets the role in all three groups.\<close>

definition setColor :: "ColorRole \<Rightarrow> QColor \<Rightarrow> QPalette \<Rightarrow> QPalette" where
  "setColor r c p = (\<lambda>(g', r'). if r' = r then Some c else p (g', r'))"

text \<open>\<open>palette.setColor(group, role, color)\<close> sets the role in one group.\<close>

definition setColor_in :: "ColorGroup \<Rightarrow> ColorRole \<Rightarrow> QColor \<Rightarrow> QPalette \<Rightarrow> QPalette" where
  "setColor_in g r c p = (\<lambda>(g', r'). if g' = g \<and> r' = r then Some c else p (g', r'))"

text \<open>
  The application object: the style and palette installed on it (\<open>None\<close> while the
  toolkit's own are in place) and its style sheet.
\<close>

record QApplication =
  app_style :: "string option"
  app_palette :: "QPalette option"
  app_style_sheet :: string

subsection \<open>The manager, its collaborators and the state\<close>

record ThemeManager =
  night_mode :: bool
  icon_cache :: "string \<rightharpoonup> QIcon"
  icon_size :: nat

text \<open>
  \<open>theme_manager = ThemeManager()\<close>: the instance reads the class attributes
  \<open>night_mode = True\<close>, \<open>_icon_cache = {}\<close> and \<open>_icon_size = 128\<close>.
\<close>

definition theme_manager :: ThemeManager where
  "theme_manager = \<lparr>night_mode = True, icon_cache = Map.empty, icon_size = 128\<rparr>"

text \<open>
  The collaborators the module only reads: \<open>aqt.isWin\<close>, \<open>anki.utils.isMac\<close>,
  \<open>platform.release()\<close>, the filter \<open>gui_hooks.style_did_init\<close>, and the truth value
  Python gives an icon object in \<open>if icon:\<close>, which the toolkit binding decides.
\<close>

record env =
  isWin :: bool
  isMac :: bool
  platform_release :: string
  style_did_init :: "string \<Rightarrow> string"
  icon_truth :: "QIcon \<Rightarrow> bool"

text \<open>
  Everything the module can change or look up at run time: the manager, the colour
  table \<open>colors\<close>, the identity the next created icon gets, the arguments the hook has
  been called with (oldest first), and the application object \<open>app\<close> handed to
  \<open>apply_style\<close>.
\<close>

record world =
  tm :: ThemeManager
  colors :: "string \<rightharpoonup> string"
  next_id :: nat
  hook_calls :: "string list"
  app :: QApplication

text \<open>\<open>Exception(*args)\<close>, with its arguments.\<close>

datatype error = Exception "string list"

text \<open>
  A method that may raise returns the exception or its value, and the state it leaves
  behind in either case. \<open>and_then\<close> runs the next statement unless one has raised.
\<close>

type_synonym 'a result = "(error + 'a) \<times> world"

definition and_then :: "(world \<Rightarrow> 'a result) \<Rightarrow> ('a \<Rightarrow> world \<Rightarrow> 'b result) \<Rightarrow> world \<Rightarrow> 'b result" where
  "and_then m f w = (case m w of (Inl e, w') \<Rightarrow> (Inl e, w') | (Inr x, w') \<Rightarrow> f x w')"

definition return :: "'a \<Rightarrow> world \<Rightarrow> 'a result" where
  "return x w = (Inr x, w)"

subsection \<open>Icons\<close>

text \<open>The truth value of \<open>self._icon_cache.get(path)\<close>: \<open>None\<close> is false.\<close>

fun truth :: "env \<Rightarrow> QIcon option \<Rightarrow> bool" where
  "truth env None = False"
| "truth env (Some icon) = icon_truth env icon"

text \<open>\<open>d.setdefault(k, v)\<close>: the value already under \<open>k\<close>, else \<open>v\<close>, which is stored.\<close>

definition setdefault :: "('k \<rightharpoonup> 'v) \<Rightarrow> 'k \<Rightarrow> 'v \<Rightarrow> 'v \<times> ('k \<rightharpoonup> 'v)" where
  "setdefault d k v = (case d k of Some x \<Rightarrow> (x, d) | None \<Rightarrow> (v, d(k \<mapsto> v)))"

text \<open>Creating an icon object gives it an identity no earlier creation gave.\<close>

definition new_QIcon :: "pixels \<Rightarrow> world \<Rightarrow> QIcon \<times> world" where
  "new_QIcon px w = (\<lparr>obj_id = next_id w, content = px\<rparr>, w\<lparr>next_id := Suc (next_id w)\<rparr>)"

definition icon_from_resources :: "env \<Rightarrow> string \<Rightarrow> world \<Rightarrow> QIcon \<times> world" where
  "icon_from_resources env path w =
     (let cached = icon_cache (tm w) path in
      case (if truth env cached then cached else None) of
        Some icon \<Rightarrow> (icon, w)
      | None \<Rightarrow>
          (let (icon, w) = new_QIcon (Resource path) w;
               (icon, w) =
                 (if night_mode (tm w) then
                    (let img = Pixmap (content icon) (icon_size (tm w)) (icon_size (tm w));
                         img = Inverted img
                     in new_QIcon img w)
                  else (icon, w));
               (icon, cache) = setdefault (icon_cache (tm w)) path icon
           in (icon, w\<lparr>tm := (tm w)\<lparr>icon_cache := cache\<rparr>\<rparr>)))"

subsection \<open>Body classes\<close>

text \<open>\<open>sep.join(xs)\<close>.\<close>

fun join :: "string \<Rightarrow> string list \<Rightarrow> string" where
  "join sep [] = []"
| "join sep [x] = x"
| "join sep (x # y # ys) = x @ sep @ join sep (y # ys)"

definition body_class :: "env \<Rightarrow> world \<Rightarrow> string" where
  "body_class env w =
     (let classes = [];
          classes = (if isWin env then classes @ [''isWin'']
                     else if isMac env then classes @ [''isMac'']
                     else classes @ [''isLin'']);
          classes = (if night_mode (tm w) then classes @ [''nightMode''] else classes)
      in join '' '' classes)"

text \<open>The decimal digits of a natural number, and \<open>str(i)\<close> for a Python integer.\<close>

definition digit :: "nat \<Rightarrow> char" where
  "digit d = (if d = 0 then CHR ''0'' else if d = 1 then CHR ''1'' else if d = 2 then CHR ''2''
     else if d = 3 then CHR ''3'' else if d = 4 then CHR ''4'' else if d = 5 then CHR ''5''
     else if d = 6 then CHR ''6'' else if d = 7 then CHR ''7'' else if d = 8 then CHR ''8''
     else CHR ''9'')"

function str_nat :: "nat \<Rightarrow> string" where
  "str_nat n = (if n < 10 then [digit n] else str_nat (n div 10) @ [digit (n mod 10)])"
  by pat_completeness auto
termination
  by (relation "measure (\<lambda>n. n)") auto

definition str_int :: "int \<Rightarrow> string" where
  "str_int i = (if i < 0 then ''-'' @ str_nat (nat (- i)) else str_nat (nat i))"

definition body_classes_for_card_ord :: "env \<Rightarrow> int \<Rightarrow> world \<Rightarrow> string" where
  "body_classes_for_card_ord env card_ord w =
     ''card card'' @ str_int (card_ord + 1) @ '' '' @ body_class env w"

subsection \<open>Colours\<close>

text \<open>
  \<open>self.night_mode and "night-" or "day-"\<close> is \<open>"night-"\<close> when the flag is true (a
  non-empty string is true) and \<open>"day-"\<close> otherwise. The table holds strings, so
  \<open>colors.get\<close> gives \<open>None\<close> exactly for a key that is absent.
\<close>

definition str_color :: "string \<Rightarrow> world \<Rightarrow> string result" where
  "str_color key w =
     (let prefix = (if night_mode (tm w) then ''night-'' else ''day-'');
          c = colors w (prefix @ key)
      in case c of
           None \<Rightarrow> (Inl (Exception [''no such color:'', key]), w)
         | Some c \<Rightarrow> (Inr c, w))"

definition qcolor :: "string \<Rightarrow> world \<Rightarrow> QColor result" where
  "qcolor key = and_then (str_color key) (\<lambda>c. return (QColor_str c))"

subsection \<open>Style sheet and palette\<close>

abbreviation NL :: string where
  "NL \<equiv> [CHR 0x0A]"

text \<open>The three triple-quoted fragments, with the line breaks and blanks they contain.\<close>

definition menubar_css :: string where
  "menubar_css = NL @ ''QMenuBar {'' @ NL @ ''  border-bottom: 1px solid #aaa;'' @ NL
     @ ''  background: white;'' @ NL @ ''}'' @ NL"

definition treewidget_css :: string where
  "treewidget_css = NL @ ''QTreeWidget {'' @ NL @ ''  background: #eee;'' @ NL @ ''}'' @ NL
     @ replicate 12 CHR '' ''"

definition night_css :: string where
  "night_css = NL @ ''QToolTip {'' @ NL @ ''  border: 0;'' @ NL @ ''}'' @ NL @ NL
     @ ''QGroupBox {'' @ NL @ ''  padding-top: 0px;'' @ NL @ ''}'' @ replicate 14 CHR '' '' @ NL
     @ replicate 12 CHR '' ''"

text \<open>\<open>gui_hooks.style_did_init(buf)\<close>: the call is recorded, the filter's value returned.\<close>

definition call_style_did_init :: "env \<Rightarrow> string \<Rightarrow> world \<Rightarrow> string \<times> world" where
  "call_style_did_init env buf w = (style_did_init env buf, w\<lparr>hook_calls := hook_calls w @ [buf]\<rparr>)"

definition setStyleSheet :: "string \<Rightarrow> world \<Rightarrow> unit result" where
  "setStyleSheet sheet w = (Inr (), w\<lparr>app := (app w)\<lparr>app_style_sheet := sheet\<rparr>\<rparr>)"

definition setStyle :: "string \<Rightarrow> world \<Rightarrow> unit result" where
  "setStyle name w = (Inr (), w\<lparr>app := (app w)\<lparr>app_style := Some name\<rparr>\<rparr>)"

definition setPalette :: "QPalette \<Rightarrow> world \<Rightarrow> unit result" where
  "setPalette p w = (Inr (), w\<lparr>app := (app w)\<lparr>app_palette := Some p\<rparr>\<rparr>)"

definition private_apply_style :: "env \<Rightarrow> world \<Rightarrow> unit result" where
  "private_apply_style env w =
     (let buf = [];
          buf = (if isWin env \<and> platform_release env = ''10'' \<and> \<not> night_mode (tm w)
                 then (buf @ menubar_css) @ treewidget_css else buf);
          buf = (if night_mode (tm w) then buf @ night_css else buf);
          (buf, w) = call_style_did_init env buf w
      in setStyleSheet buf w)"

definition private_apply_palette :: "world \<Rightarrow> unit result" where
  "private_apply_palette w =
     (if \<not> night_mode (tm w) then (Inr (), w)
      else
        and_then (setStyle ''fusion'') (\<lambda>_.
        let palette = QPalette_new in
        and_then (qcolor ''text-fg'') (\<lambda>text_fg.
        let palette = setColor WindowText text_fg palette;
            palette = setColor ToolTipText text_fg palette;
            palette = setColor Text text_fg palette;
            palette = setColor ButtonText text_fg palette in
        and_then (qcolor ''highlight-bg'') (\<lambda>hlbg.
        let hlbg = setAlpha 64 hlbg in
        and_then (qcolor ''highlight-fg'') (\<lambda>highlight_fg.
        let palette = setColor HighlightedText highlight_fg palette;
            palette = setColor Highlight hlbg palette in
        and_then (qcolor ''window-bg'') (\<lambda>window_bg.
        let palette = setColor Window window_bg palette;
            palette = setColor AlternateBase window_bg palette;
            palette = setColor Button window_bg palette in
        and_then (qcolor ''frame-bg'') (\<lambda>frame_bg.
        let palette = setColor Base frame_bg palette;
            palette = setColor ToolTipBase frame_bg palette in
        and_then (qcolor ''disabled'') (\<lambda>disabled_color.
        let palette = setColor_in Disabled Text disabled_color palette;
            palette = setColor_in Disabled ButtonText disabled_color palette;
            palette = setColor_in Disabled HighlightedText disabled_color palette in
        and_then (qcolor ''link'') (\<lambda>link.
        let palette = setColor Link link palette;
            palette = setColor BrightText (QColor_global red) palette in
        setPalette palette)))))))) w)"

definition apply_style :: "env \<Rightarrow> world \<Rightarrow> unit result" where
  "apply_style env = and_then private_apply_palette (\<lambda>_. private_apply_style env)"

subsection \<open>Sequences of calls\<close>

text \<open>
  What a caller can do with the manager: assign the mode flag or call a method. A caller
  that catches an exception goes on from the state the method left.
\<close>

datatype call =
    Set_night_mode bool
  | Icon_from_resources string
  | Body_class
  | Body_classes_for_card_ord int
  | Str_color string
  | Qcolor string
  | Apply_style
  | Private_apply_style
  | Private_apply_palette

fun exec :: "env \<Rightarrow> call \<Rightarrow> world \<Rightarrow> world" where
  "exec env (Set_night_mode b) w = w\<lparr>tm := (tm w)\<lparr>night_mode := b\<rparr>\<rparr>"
| "exec env (Icon_from_resources path) w = snd (icon_from_resources env path w)"
| "exec env Body_class w = w"
| "exec env (Body_classes_for_card_ord card_ord) w = w"
| "exec env (Str_color key) w = snd (str_color key w)"
| "exec env (Qcolor key) w = snd (qcolor key w)"
| "exec env Apply_style w = snd (apply_style env w)"
| "exec env Private_apply_style w = snd (private_apply_style env w)"
| "exec env Private_apply_palette w = snd (private_apply_palette w)"

fun run :: "env \<Rightarrow> call list \<Rightarrow> world \<Rightarrow> world" where
  "run env [] w = w"
| "run env (c # cs) w = run env cs (exec env c w)"

text \<open>The names \<open>_apply_palette\<close> looks up, in the order of its \<open>qcolor\<close> calls.\<close>

definition palette_keys :: "string list" where
  "palette_keys = [''text-fg'', ''highlight-bg'', ''highlight-fg'', ''window-bg'', ''frame-bg'',
     ''disabled'', ''link'']"

subsection \<open>Reading the installed palette\<close>

text \<open>The colour the application's palette holds for a slot, if one was set.\<close>

definition palette_color :: "world \<Rightarrow> ColorGroup \<Rightarrow> ColorRole \<Rightarrow> QColor option" where
  "palette_color w g r = (case app_palette (app w) of None \<Rightarrow> None | Some p \<Rightarrow> p (g, r))"

definition from_table :: "QColor option \<Rightarrow> bool" where
  "from_table c = (case c of None \<Rightarrow> False
     | Some c \<Rightarrow> (case source c of FromString s \<Rightarrow> True | FromGlobal g \<Rightarrow> False))"

text \<open>The roles that hold, in some group, a colour made from a string of the table.\<close>

definition table_roles :: "world \<Rightarrow> ColorRole list" where
  "table_roles w =
     filter (\<lambda>r. list_ex (\<lambda>g. from_table (palette_color w g r)) [Active, Inactive, Disabled]) all_roles"

text \<open>The roles that hold a colour in some group.\<close>

definition roles_set :: "world \<Rightarrow> ColorRole list" where
  "roles_set w =
     filter (\<lambda>r. list_ex (\<lambda>g. palette_color w g r \<noteq> None) [Active, Inactive, Disabled]) all_roles"

subsection \<open>A sample configuration\<close>

definition sample_colors :: "string \<rightharpoonup> string" where
  "sample_colors = map_of
     [(''day-text-fg'', ''black''), (''day-window-bg'', ''#ececec''), (''day-frame-bg'', ''white''),
      (''day-link'', ''#00a''), (''day-highlight-bg'', ''#77ccff''), (''day-highlight-fg'', ''black''),
      (''day-disabled'', ''#777''),
      (''night-text-fg'', ''white''), (''night-window-bg'', ''#2f2f31''),
      (''night-frame-bg'', ''#3a3a3a''), (''night-link'', ''#77ccff''),
      (''night-highlight-bg'', ''#77ccff''), (''night-highlight-fg'', ''white''),
      (''night-disabled'', ''#777'')]"

definition sample_env :: env where
  "sample_env = \<lparr>isWin = False, isMac = False, platform_release = ''5.4.0'',
     style_did_init = (\<lambda>buf. buf @ ''QWidget { margin: 0; }''), icon_truth = (\<lambda>icon. True)\<rparr>"

definition default_app :: QApplication where
  "default_app = \<lparr>app_style = None, app_palette = None, app_style_sheet = []\<rparr>"

definition sample_world :: world where
  "sample_world = \<lparr>tm = theme_manager, colors = sample_colors, next_id = 0, hook_calls = [],
     app = default_app\<rparr>"

definition day_world :: world where
  "day_world = sample_world\<lparr>tm := theme_manager\<lparr>night_mode := False\<rparr>\<rparr>"

section \<open>Properties\<close>

subsection \<open>Colour lookup\<close>

text \<open>
  C1. Whenever the table holds the key made of the mode's prefix (\<open>night-\<close> in night
  mode, \<open>day-\<close> in day mode) and the semantic name \<open>k\<close>, \<open>str_color k\<close> returns the
  value stored under that key, and changes nothing.
\<close>

theorem str_color_known_key:
  assumes "colors w ((if night_mode (tm w) then ''night-'' else ''day-'') @ k) = Some v"
  shows "str_color k w = (Inr v, w)"
  using assms by (simp add: str_color_def Let_def)

theorem str_color_known_key_witness:
  "colors sample_world
     ((if night_mode (tm sample_world) then ''night-'' else ''day-'') @ ''text-fg'') = Some ''white''
   \<and> str_color ''text-fg'' sample_world = (Inr ''white'', sample_world)
   \<and> colors day_world
     ((if night_mode (tm day_world) then ''night-'' else ''day-'') @ ''link'') = Some ''#00a''
   \<and> str_color ''link'' day_world = (Inr ''#00a'', day_world)"
proof -
  have n: "colors sample_world
     ((if night_mode (tm sample_world) then ''night-'' else ''day-'') @ ''text-fg'') = Some ''white''"
    by (simp add: sample_world_def theme_manager_def sample_colors_def)
  have d: "colors day_world
     ((if night_mode (tm day_world) then ''night-'' else ''day-'') @ ''link'') = Some ''#00a''"
    by (simp add: day_world_def sample_world_def theme_manager_def sample_colors_def)
  show ?thesis
    using n d str_color_known_key [OF n] str_color_known_key [OF d] by simp
qed

text \<open>A lookup never changes the state, and \<open>qcolor\<close> wraps what \<open>str_color\<close> gives.\<close>

lemma str_color_state: "snd (str_color k w) = w"
  by (simp add: str_color_def Let_def split: option.splits)

lemma qcolor_result:
  "qcolor k w =
     (case colors w ((if night_mode (tm w) then ''night-'' else ''day-'') @ k) of
        None \<Rightarrow> (Inl (Exception [''no such color:'', k]), w)
      | Some c \<Rightarrow> (Inr (QColor_str c), w))"
  by (simp add: qcolor_def and_then_def return_def str_color_def Let_def split: option.splits)

lemma qcolor_state: "snd (qcolor k w) = w"
  by (simp add: qcolor_result split: option.splits)

text \<open>
  C2. Whenever the table lacks the prefixed key, in either mode, \<open>str_color k\<close> raises
  \<open>Exception("no such color:", k)\<close>, which carries \<open>k\<close>. Nothing in the module catches
  it: \<open>qcolor k\<close> raises the same exception, and so does any method body that calls
  \<open>qcolor k\<close> and goes on with \<open>f\<close>.
\<close>

theorem str_color_unknown_key:
  assumes "colors w ((if night_mode (tm w) then ''night-'' else ''day-'') @ k) = None"
  shows "fst (str_color k w) = Inl (Exception [''no such color:'', k])
       \<and> fst (qcolor k w) = Inl (Exception [''no such color:'', k])
       \<and> fst (and_then (qcolor k) f w) = Inl (Exception [''no such color:'', k])"
  using assms by (simp add: qcolor_result and_then_def str_color_def Let_def)

theorem str_color_unknown_key_witness:
  "colors sample_world
     ((if night_mode (tm sample_world) then ''night-'' else ''day-'') @ ''border'') = None
   \<and> fst (str_color ''border'' sample_world) = Inl (Exception [''no such color:'', ''border''])
   \<and> fst (qcolor ''border'' sample_world) = Inl (Exception [''no such color:'', ''border''])
   \<and> fst (and_then (qcolor ''border'') return sample_world)
       = Inl (Exception [''no such color:'', ''border''])
   \<and> colors day_world
     ((if night_mode (tm day_world) then ''night-'' else ''day-'') @ ''border'') = None
   \<and> fst (str_color ''border'' day_world) = Inl (Exception [''no such color:'', ''border''])"
proof -
  have n: "colors sample_world
     ((if night_mode (tm sample_world) then ''night-'' else ''day-'') @ ''border'') = None"
    by (simp add: sample_world_def theme_manager_def sample_colors_def)
  have d: "colors day_world
     ((if night_mode (tm day_world) then ''night-'' else ''day-'') @ ''border'') = None"
    by (simp add: day_world_def sample_world_def theme_manager_def sample_colors_def)
  show ?thesis
    using n d str_color_unknown_key [OF n, of return] str_color_unknown_key [OF d, of return]
    by simp
qed

text \<open>
  The palette reads seven names, in this order. In night mode the first of them the table
  lacks is the one whose exception leaves \<open>_apply_palette\<close> and \<open>apply_style\<close>.
\<close>

lemma apply_palette_first_missing_key:
  assumes "night_mode (tm w)"
    and "find (\<lambda>k. colors w (''night-'' @ k) = None) palette_keys = Some k"
  shows "fst (private_apply_palette w) = Inl (Exception [''no such color:'', k])"
  using assms
  by (auto simp add: palette_keys_def private_apply_palette_def and_then_def qcolor_result
      setStyle_def Let_def split: if_splits option.splits)

lemma apply_style_first_missing_key:
  assumes "night_mode (tm w)"
    and "find (\<lambda>k. colors w (''night-'' @ k) = None) palette_keys = Some k"
  shows "fst (apply_style env w) = Inl (Exception [''no such color:'', k])"
  using apply_palette_first_missing_key [OF assms]
  by (cases "private_apply_palette w") (simp add: apply_style_def and_then_def)

text \<open>
  C10. A lookup that raises leaves the whole state as it was: the mode flag, the icon
  cache and the colour table are fields of the state \<open>w\<close>, which \<open>str_color\<close> and
  \<open>qcolor\<close> hand back unchanged.
\<close>

theorem color_lookup_failure_keeps_state:
  assumes "colors w ((if night_mode (tm w) then ''night-'' else ''day-'') @ k) = None"
  shows "snd (str_color k w) = w \<and> snd (qcolor k w) = w
       \<and> night_mode (tm (snd (qcolor k w))) = night_mode (tm w)
       \<and> icon_cache (tm (snd (qcolor k w))) = icon_cache (tm w)
       \<and> colors (snd (qcolor k w)) = colors w"
  by (simp add: str_color_state qcolor_state)

theorem color_lookup_failure_keeps_state_witness:
  "colors sample_world
     ((if night_mode (tm sample_world) then ''night-'' else ''day-'') @ ''border'') = None
   \<and> fst (qcolor ''border'' sample_world) = Inl (Exception [''no such color:'', ''border''])
   \<and> snd (str_color ''border'' sample_world) = sample_world
   \<and> snd (qcolor ''border'' sample_world) = sample_world"
proof -
  have n: "colors sample_world
     ((if night_mode (tm sample_world) then ''night-'' else ''day-'') @ ''border'') = None"
    by (simp add: sample_world_def theme_manager_def sample_colors_def)
  show ?thesis
    using n color_lookup_failure_keeps_state [OF n] by (simp add: qcolor_result)
qed

subsection \<open>The initial mode\<close>

text \<open>
  C3, as the code has it. The flag of a freshly constructed manager is true: the manager
  starts in night mode, and is in day mode only once a caller has assigned the flag.
\<close>

theorem initial_mode_is_night: "night_mode theme_manager = True"
  by (simp add: theme_manager_def)

text \<open>The claim as worded, that the initial value is false (day mode), fails.\<close>

theorem initial_mode_not_day: "night_mode theme_manager \<noteq> False"
  by (simp add: theme_manager_def)

subsection \<open>The icon cache\<close>

text \<open>
  After a call the cache holds the returned icon under the path; a path that has an icon
  in the cache gets that icon back; and a call for one path leaves the entries of the
  others alone. All three hold whatever truth value the binding gives an icon: when a
  cached icon counts as false the method builds a new one, and \<open>setdefault\<close> still
  returns the one in the cache.
\<close>

lemma icon_stored:
  "icon_cache (tm (snd (icon_from_resources env p w))) p
     = Some (fst (icon_from_resources env p w))"
  by (cases "icon_cache (tm w) p")
     (simp_all add: icon_from_resources_def new_QIcon_def setdefault_def Let_def)

lemma icon_returns_cached:
  "icon_cache (tm w) p = Some h \<Longrightarrow> fst (icon_from_resources env p w) = h"
  by (simp add: icon_from_resources_def new_QIcon_def setdefault_def Let_def)

lemma icon_keeps_cached:
  "icon_cache (tm w) p = Some h
   \<Longrightarrow> icon_cache (tm (snd (icon_from_resources env q w))) p = Some h"
  by (cases "icon_cache (tm w) q")
     (auto simp add: icon_from_resources_def new_QIcon_def setdefault_def Let_def)

text \<open>
  C4. Two calls in a row for the same path, nothing in between, return the same icon
  object (same identity and content), and it is the one the cache holds under the path
  after the first call.
\<close>

theorem icon_lookup_idempotent:
  "fst (icon_from_resources env p (snd (icon_from_resources env p w)))
     = fst (icon_from_resources env p w)
   \<and> icon_cache (tm (snd (icon_from_resources env p w))) p
     = Some (fst (icon_from_resources env p w))"
  using icon_returns_cached [OF icon_stored] icon_stored by blast

theorem icon_lookup_idempotent_witness:
  "fst (icon_from_resources sample_env ''icons:flag.svg'' sample_world)
     = \<lparr>obj_id = 1, content = Inverted (Pixmap (Resource ''icons:flag.svg'') 128 128)\<rparr>
   \<and> fst (icon_from_resources sample_env ''icons:flag.svg''
         (snd (icon_from_resources sample_env ''icons:flag.svg'' sample_world)))
     = \<lparr>obj_id = 1, content = Inverted (Pixmap (Resource ''icons:flag.svg'') 128 128)\<rparr>"
proof -
  have "fst (icon_from_resources sample_env ''icons:flag.svg'' sample_world)
     = \<lparr>obj_id = 1, content = Inverted (Pixmap (Resource ''icons:flag.svg'') 128 128)\<rparr>"
    by (simp add: icon_from_resources_def new_QIcon_def setdefault_def Let_def
        sample_world_def sample_env_def theme_manager_def)
  then show ?thesis
    using icon_lookup_idempotent [of sample_env "''icons:flag.svg''" sample_world] by simp
qed

text \<open>No method takes an entry out of the cache or replaces one.\<close>

lemma private_apply_style_tm: "tm (snd (private_apply_style env w)) = tm w"
  by (simp add: private_apply_style_def call_style_did_init_def setStyleSheet_def Let_def)

lemma private_apply_palette_tm: "tm (snd (private_apply_palette w)) = tm w"
  by (simp add: private_apply_palette_def and_then_def qcolor_result setStyle_def
      setPalette_def Let_def split: option.splits)

lemma apply_style_tm: "tm (snd (apply_style env w)) = tm w"
proof (cases "private_apply_palette w")
  case (Pair r w')
  then have "tm w' = tm w"
    using private_apply_palette_tm [of w] by simp
  with Pair show ?thesis
    using private_apply_style_tm [of env w']
    by (cases r) (simp_all add: apply_style_def and_then_def)
qed

lemma exec_keeps_cached:
  "icon_cache (tm w) p = Some h \<Longrightarrow> icon_cache (tm (exec env c w)) p = Some h"
  by (cases c)
     (simp_all add: icon_keeps_cached str_color_state qcolor_state apply_style_tm
        private_apply_style_tm private_apply_palette_tm)

lemma run_keeps_cached:
  "icon_cache (tm w) p = Some h \<Longrightarrow> icon_cache (tm (run env cs w)) p = Some h"
  by (induction cs arbitrary: w) (simp_all add: exec_keeps_cached)

text \<open>
  C9. Once \<open>icon_from_resources p\<close> has returned, whatever the caller does next with the
  manager (any sequence \<open>cs\<close> of assignments to the mode flag and of method calls), the
  cache still holds that icon under \<open>p\<close>, and a later \<open>icon_from_resources p\<close> returns
  it: after a flip of the flag the icon of the earlier mode comes back.
\<close>

theorem icon_cache_never_invalidated:
  "icon_cache (tm (run env cs (snd (icon_from_resources env p w)))) p
     = Some (fst (icon_from_resources env p w))
   \<and> fst (icon_from_resources env p (run env cs (snd (icon_from_resources env p w))))
     = fst (icon_from_resources env p w)"
proof -
  have "icon_cache (tm (run env cs (snd (icon_from_resources env p w)))) p
     = Some (fst (icon_from_resources env p w))"
    using icon_stored by (rule run_keeps_cached)
  then show ?thesis
    by (simp add: icon_returns_cached)
qed

theorem icon_cache_never_invalidated_witness:
  "fst (icon_from_resources sample_env ''icons:flag.svg'' sample_world)
     = \<lparr>obj_id = 1, content = Inverted (Pixmap (Resource ''icons:flag.svg'') 128 128)\<rparr>
   \<and> night_mode (tm (run sample_env
         [Set_night_mode False, Icon_from_resources ''icons:star.svg'', Apply_style]
         (snd (icon_from_resources sample_env ''icons:flag.svg'' sample_world)))) = False
   \<and> fst (icon_from_resources sample_env ''icons:flag.svg''
         (run sample_env
            [Set_night_mode False, Icon_from_resources ''icons:star.svg'', Apply_style]
            (snd (icon_from_resources sample_env ''icons:flag.svg'' sample_world))))
     = \<lparr>obj_id = 1, content = Inverted (Pixmap (Resource ''icons:flag.svg'') 128 128)\<rparr>"
proof -
  have h: "fst (icon_from_resources sample_env ''icons:flag.svg'' sample_world)
     = \<lparr>obj_id = 1, content = Inverted (Pixmap (Resource ''icons:flag.svg'') 128 128)\<rparr>"
    by (simp add: icon_from_resources_def new_QIcon_def setdefault_def Let_def
        sample_world_def sample_env_def theme_manager_def)
  have t: "tm (snd (icon_from_resources sample_env ''icons:star.svg'' w)) =
      (tm w)\<lparr>icon_cache := icon_cache (tm (snd (icon_from_resources sample_env ''icons:star.svg'' w)))\<rparr>"
    for w
    by (cases "icon_cache (tm w) ''icons:star.svg''")
       (simp_all add: icon_from_resources_def new_QIcon_def setdefault_def Let_def)
  have m: "night_mode (tm (run sample_env
         [Set_night_mode False, Icon_from_resources ''icons:star.svg'', Apply_style]
         (snd (icon_from_resources sample_env ''icons:flag.svg'' sample_world)))) = False"
    by (simp add: apply_style_tm) (subst t, simp)
  show ?thesis
    using h m
      icon_cache_never_invalidated [of sample_env
        "[Set_night_mode False, Icon_from_resources ''icons:star.svg'', Apply_style]"
        "''icons:flag.svg''" sample_world]
    by simp
qed

subsection \<open>Body classes\<close>

text \<open>
  C7. On every platform and in both modes the class string is one platform tag
  (\<open>isWin\<close>, else \<open>isMac\<close>, else \<open>isLin\<close>), followed by a blank and \<open>nightMode\<close> exactly
  in night mode, and nothing more: it is the join, with single blanks, of that tag and
  of \<open>nightMode\<close> when the flag is set.
\<close>

theorem body_class_shape:
  "body_class env w =
     (if isWin env then ''isWin'' else if isMac env then ''isMac'' else ''isLin'')
     @ (if night_mode (tm w) then '' nightMode'' else [])
   \<and> body_class env w =
     join '' '' ((if isWin env then ''isWin'' else if isMac env then ''isMac'' else ''isLin'')
       # (if night_mode (tm w) then [''nightMode''] else []))"
  by (simp add: body_class_def Let_def)

text \<open>
  C8. In night mode on a platform that is neither Windows nor Mac, the classes for card
  ordinal 2 are \<open>card card3 isLin nightMode\<close>.
\<close>

theorem card_classes_night_linux:
  assumes "night_mode (tm w)" and "\<not> isWin env" and "\<not> isMac env"
  shows "body_classes_for_card_ord env 2 w = ''card card3 isLin nightMode''"
  using assms
  by (simp add: body_classes_for_card_ord_def body_class_def str_int_def digit_def Let_def)

theorem card_classes_night_linux_witness:
  "night_mode (tm sample_world) \<and> \<not> isWin sample_env \<and> \<not> isMac sample_env
   \<and> body_classes_for_card_ord sample_env 2 sample_world = ''card card3 isLin nightMode''"
proof -
  have n: "night_mode (tm sample_world)"
    by (simp add: sample_world_def theme_manager_def)
  have w: "\<not> isWin sample_env" and m: "\<not> isMac sample_env"
    by (simp_all add: sample_env_def)
  show ?thesis
    using n w m card_classes_night_linux [OF n w m] by simp
qed

subsection \<open>The style sheet\<close>

text \<open>
  C6. \<open>_apply_style\<close> calls the hook once: the record of hook calls grows by one entry,
  the whole buffer (the Windows 10 day-mode fragments, then the night-mode fragment, each
  only under its condition). The style sheet installed on the application is the hook's
  value at that buffer. Nothing else changes and nothing is raised.
\<close>

theorem apply_style_hook_once:
  "private_apply_style env w =
     (let buf = (if isWin env \<and> platform_release env = ''10'' \<and> \<not> night_mode (tm w)
                 then menubar_css @ treewidget_css else [])
              @ (if night_mode (tm w) then night_css else [])
      in (Inr (), w\<lparr>hook_calls := hook_calls w @ [buf],
                     app := (app w)\<lparr>app_style_sheet := style_did_init env buf\<rparr>\<rparr>))"
  by (simp add: private_apply_style_def call_style_did_init_def setStyleSheet_def Let_def)

theorem apply_style_hook_once_witness:
  "hook_calls (snd (private_apply_style sample_env sample_world)) = [night_css]
   \<and> app_style_sheet (app (snd (private_apply_style sample_env sample_world)))
       = night_css @ ''QWidget { margin: 0; }''
   \<and> hook_calls (snd (private_apply_style sample_env day_world)) = [[]]
   \<and> app_style_sheet (app (snd (private_apply_style sample_env day_world)))
       = ''QWidget { margin: 0; }''"
  using apply_style_hook_once [of sample_env sample_world]
    apply_style_hook_once [of sample_env day_world]
  by (simp add: Let_def sample_env_def sample_world_def day_world_def theme_manager_def)

subsection \<open>The palette\<close>

text \<open>The palette built in night mode when the table has the seven names.\<close>

lemma palette_night_result:
  assumes "night_mode (tm w)"
    and "colors w ''night-text-fg'' = Some text_fg"
    and "colors w ''night-highlight-bg'' = Some highlight_bg"
    and "colors w ''night-highlight-fg'' = Some highlight_fg"
    and "colors w ''night-window-bg'' = Some window_bg"
    and "colors w ''night-frame-bg'' = Some frame_bg"
    and "colors w ''night-disabled'' = Some disabled"
    and "colors w ''night-link'' = Some link"
  shows "private_apply_palette w =
     (Inr (), w\<lparr>app := (app w)\<lparr>app_style := Some ''fusion'', app_palette := Some
        (setColor BrightText (QColor_global red)
        (setColor Link (QColor_str link)
        (setColor_in Disabled HighlightedText (QColor_str disabled)
        (setColor_in Disabled ButtonText (QColor_str disabled)
        (setColor_in Disabled Text (QColor_str disabled)
        (setColor ToolTipBase (QColor_str frame_bg)
        (setColor Base (QColor_str frame_bg)
        (setColor Button (QColor_str window_bg)
        (setColor AlternateBase (QColor_str window_bg)
        (setColor Window (QColor_str window_bg)
        (setColor Highlight (setAlpha 64 (QColor_str highlight_bg))
        (setColor HighlightedText (QColor_str highlight_fg)
        (setColor ButtonText (QColor_str text_fg)
        (setColor Text (QColor_str text_fg)
        (setColor ToolTipText (QColor_str text_fg)
        (setColor WindowText (QColor_str text_fg) QPalette_new))))))))))))))))\<rparr>\<rparr>)"
  using assms
  by (simp add: private_apply_palette_def and_then_def qcolor_result setStyle_def
      setPalette_def Let_def)

lemmas palette_reading = palette_color_def setColor_def setColor_in_def QPalette_new_def
  table_roles_def roles_set_def all_roles_def from_table_def QColor_str_def
  QColor_global_def setAlpha_def

text \<open>
  C5, as the code has it. In day mode \<open>_apply_palette\<close> changes nothing. In night mode,
  with the seven names it reads present in the table, it selects the fusion style and
  installs a palette in which twelve roles hold colours made from table values
  (\<open>WindowText\<close>, \<open>ToolTipText\<close>, \<open>Text\<close>, \<open>ButtonText\<close>, \<open>HighlightedText\<close>,
  \<open>Highlight\<close> with alpha 64, \<open>Window\<close>, \<open>AlternateBase\<close>, \<open>Button\<close>, \<open>Base\<close>,
  \<open>ToolTipBase\<close>, \<open>Link\<close>; three of them hold the \<open>disabled\<close> colour in the disabled
  group), and \<open>BrightText\<close> holds the fixed red whatever the table says. The other eight
  roles, the style sheet and the rest of the state stay as they were.
\<close>

theorem apply_palette_effect:
  "(\<not> night_mode (tm w) \<longrightarrow> private_apply_palette w = (Inr (), w))
   \<and> (night_mode (tm w)
        \<and> colors w ''night-text-fg'' = Some text_fg
        \<and> colors w ''night-highlight-bg'' = Some highlight_bg
        \<and> colors w ''night-highlight-fg'' = Some highlight_fg
        \<and> colors w ''night-window-bg'' = Some window_bg
        \<and> colors w ''night-frame-bg'' = Some frame_bg
        \<and> colors w ''night-disabled'' = Some disabled
        \<and> colors w ''night-link'' = Some link \<longrightarrow>
       (let w' = snd (private_apply_palette w) in
          fst (private_apply_palette w) = Inr ()
        \<and> w'\<lparr>app := app w\<rparr> = w
        \<and> app_style (app w') = Some ''fusion''
        \<and> app_style_sheet (app w') = app_style_sheet (app w)
        \<and> (\<forall>g. palette_color w' g WindowText = Some (QColor_str text_fg))
        \<and> (\<forall>g. palette_color w' g ToolTipText = Some (QColor_str text_fg))
        \<and> (\<forall>g. palette_color w' g Text
                  = Some (QColor_str (if g = Disabled then disabled else text_fg)))
        \<and> (\<forall>g. palette_color w' g ButtonText
                  = Some (QColor_str (if g = Disabled then disabled else text_fg)))
        \<and> (\<forall>g. palette_color w' g HighlightedText
                  = Some (QColor_str (if g = Disabled then disabled else highlight_fg)))
        \<and> (\<forall>g. palette_color w' g Highlight = Some (setAlpha 64 (QColor_str highlight_bg)))
        \<and> (\<forall>g. palette_color w' g Window = Some (QColor_str window_bg))
        \<and> (\<forall>g. palette_color w' g AlternateBase = Some (QColor_str window_bg))
        \<and> (\<forall>g. palette_color w' g Button = Some (QColor_str window_bg))
        \<and> (\<forall>g. palette_color w' g Base = Some (QColor_str frame_bg))
        \<and> (\<forall>g. palette_color w' g ToolTipBase = Some (QColor_str frame_bg))
        \<and> (\<forall>g. palette_color w' g Link = Some (QColor_str link))
        \<and> (\<forall>g. palette_color w' g BrightText = Some (QColor_global red))
        \<and> table_roles w' = [WindowText, Button, Text, ButtonText, Base, Window, Highlight,
             HighlightedText, Link, AlternateBase, ToolTipBase, ToolTipText]
        \<and> roles_set w' = [WindowText, Button, Text, BrightText, ButtonText, Base, Window,
             Highlight, HighlightedText, Link, AlternateBase, ToolTipBase, ToolTipText]))"
proof (intro conjI impI)
  assume "\<not> night_mode (tm w)"
  then show "private_apply_palette w = (Inr (), w)"
    by (simp add: private_apply_palette_def)
next
  assume a: "night_mode (tm w)
        \<and> colors w ''night-text-fg'' = Some text_fg
        \<and> colors w ''night-highlight-bg'' = Some highlight_bg
        \<and> colors w ''night-highlight-fg'' = Some highlight_fg
        \<and> colors w ''night-window-bg'' = Some window_bg
        \<and> colors w ''night-frame-bg'' = Some frame_bg
        \<and> colors w ''night-disabled'' = Some disabled
        \<and> colors w ''night-link'' = Some link"
  have eq: "private_apply_palette w =
     (Inr (), w\<lparr>app := (app w)\<lparr>app_style := Some ''fusion'', app_palette := Some
        (setColor BrightText (QColor_global red)
        (setColor Link (QColor_str link)
        (setColor_in Disabled HighlightedText (QColor_str disabled)
        (setColor_in Disabled ButtonText (QColor_str disabled)
        (setColor_in Disabled Text (QColor_str disabled)
        (setColor ToolTipBase (QColor_str frame_bg)
        (setColor Base (QColor_str frame_bg)
        (setColor Button (QColor_str window_bg)
        (setColor AlternateBase (QColor_str window_bg)
        (setColor Window (QColor_str window_bg)
        (setColor Highlight (setAlpha 64 (QColor_str highlight_bg))
        (setColor HighlightedText (QColor_str highlight_fg)
        (setColor ButtonText (QColor_str text_fg)
        (setColor Text (QColor_str text_fg)
        (setColor ToolTipText (QColor_str text_fg)
        (setColor WindowText (QColor_str text_fg) QPalette_new))))))))))))))))\<rparr>\<rparr>)"
    using a by (intro palette_night_result) simp_all
  show "let w' = snd (private_apply_palette w) in
          fst (private_apply_palette w) = Inr ()
        \<and> w'\<lparr>app := app w\<rparr> = w
        \<and> app_style (app w') = Some ''fusion''
        \<and> app_style_sheet (app w') = app_style_sheet (app w)
        \<and> (\<forall>g. palette_color w' g WindowText = Some (QColor_str text_fg))
        \<and> (\<forall>g. palette_color w' g ToolTipText = Some (QColor_str text_fg))
        \<and> (\<forall>g. palette_color w' g Text
                  = Some (QColor_str (if g = Disabled then disabled else text_fg)))
        \<and> (\<forall>g. palette_color w' g ButtonText
                  = Some (QColor_str (if g = Disabled then disabled else text_fg)))
        \<and> (\<forall>g. palette_color w' g HighlightedText
                  = Some (QColor_str (if g = Disabled then disabled else highlight_fg)))
        \<and> (\<forall>g. palette_color w' g Highlight = Some (setAlpha 64 (QColor_str highlight_bg)))
        \<and> (\<forall>g. palette_color w' g Window = Some (QColor_str window_bg))
        \<and> (\<forall>g. palette_color w' g AlternateBase = Some (QColor_str window_bg))
        \<and> (\<forall>g. palette_color w' g Button = Some (QColor_str window_bg))
        \<and> (\<forall>g. palette_color w' g Base = Some (QColor_str frame_bg))
        \<and> (\<forall>g. palette_color w' g ToolTipBase = Some (QColor_str frame_bg))
        \<and> (\<forall>g. palette_color w' g Link = Some (QColor_str link))
        \<and> (\<forall>g. palette_color w' g BrightText = Some (QColor_global red))
        \<and> table_roles w' = [WindowText, Button, Text, ButtonText, Base, Window, Highlight,
             HighlightedText, Link, AlternateBase, ToolTipBase, ToolTipText]
        \<and> roles_set w' = [WindowText, Button, Text, BrightText, ButtonText, Base, Window,
             Highlight, HighlightedText, Link, AlternateBase, ToolTipBase, ToolTipText]"
    unfolding eq Let_def by (simp add: palette_reading)
qed

lemma sample_world_keys:
  "night_mode (tm sample_world)
   \<and> colors sample_world ''night-text-fg'' = Some ''white''
   \<and> colors sample_world ''night-highlight-bg'' = Some ''#77ccff''
   \<and> colors sample_world ''night-highlight-fg'' = Some ''white''
   \<and> colors sample_world ''night-window-bg'' = Some ''#2f2f31''
   \<and> colors sample_world ''night-frame-bg'' = Some ''#3a3a3a''
   \<and> colors sample_world ''night-disabled'' = Some ''#777''
   \<and> colors sample_world ''night-link'' = Some ''#77ccff''"
  by (simp add: sample_world_def theme_manager_def sample_colors_def)

theorem apply_palette_effect_witness:
  "\<not> night_mode (tm day_world)
   \<and> private_apply_palette day_world = (Inr (), day_world)
   \<and> night_mode (tm sample_world)
   \<and> colors sample_world ''night-text-fg'' = Some ''white''
   \<and> colors sample_world ''night-highlight-bg'' = Some ''#77ccff''
   \<and> colors sample_world ''night-highlight-fg'' = Some ''white''
   \<and> colors sample_world ''night-window-bg'' = Some ''#2f2f31''
   \<and> colors sample_world ''night-frame-bg'' = Some ''#3a3a3a''
   \<and> colors sample_world ''night-disabled'' = Some ''#777''
   \<and> colors sample_world ''night-link'' = Some ''#77ccff''
   \<and> fst (private_apply_palette sample_world) = Inr ()
   \<and> app_style (app (snd (private_apply_palette sample_world))) = Some ''fusion''
   \<and> palette_color (snd (private_apply_palette sample_world)) Active Text
       = Some (QColor_str ''white'')
   \<and> palette_color (snd (private_apply_palette sample_world)) Disabled Text
       = Some (QColor_str ''#777'')
   \<and> palette_color (snd (private_apply_palette sample_world)) Active BrightText
       = Some (QColor_global red)
   \<and> length (table_roles (snd (private_apply_palette sample_world))) = 12"
proof -
  have d: "\<not> night_mode (tm day_world)"
    by (simp add: day_world_def sample_world_def theme_manager_def)
  note day = apply_palette_effect [of day_world, THEN conjunct1, rule_format, OF d]
  note night = apply_palette_effect [of sample_world "''white''" "''#77ccff''" "''white''"
      "''#2f2f31''" "''#3a3a3a''" "''#777''" "''#77ccff''", THEN conjunct2, rule_format,
      OF sample_world_keys]
  show ?thesis
    using d day sample_world_keys night by (simp add: Let_def)
qed

text \<open>
  The claim as worded fails twice. With the full sample table the roles that get table
  colours number twelve, not ten; and in night mode with a table that lacks the names
  the call raises and installs no palette.
\<close>

theorem apply_palette_not_ten_roles:
  "length (table_roles (snd (private_apply_palette sample_world))) \<noteq> 10
   \<and> night_mode (tm (sample_world\<lparr>colors := Map.empty\<rparr>))
   \<and> fst (private_apply_palette (sample_world\<lparr>colors := Map.empty\<rparr>))
       = Inl (Exception [''no such color:'', ''text-fg''])
   \<and> app_palette (app (snd (private_apply_palette (sample_world\<lparr>colors := Map.empty\<rparr>))))
       = None"
proof -
  have "private_apply_palette sample_world = (Inr (), sample_world\<lparr>app := (app sample_world)\<lparr>app_style := Some ''fusion'', app_palette := Some
        (setColor BrightText (QColor_global red)
        (setColor Link (QColor_str ''#77ccff'')
        (setColor_in Disabled HighlightedText (QColor_str ''#777'')
        (setColor_in Disabled ButtonText (QColor_str ''#777'')
        (setColor_in Disabled Text (QColor_str ''#777'')
        (setColor ToolTipBase (QColor_str ''#3a3a3a'')
        (setColor Base (QColor_str ''#3a3a3a'')
        (setColor Button (QColor_str ''#2f2f31'')
        (setColor AlternateBase (QColor_str ''#2f2f31'')
        (setColor Window (QColor_str ''#2f2f31'')
        (setColor Highlight (setAlpha 64 (QColor_str ''#77ccff''))
        (setColor HighlightedText (QColor_str ''white'')
        (setColor ButtonText (QColor_str ''white'')
        (setColor Text (QColor_str ''white'')
        (setColor ToolTipText (QColor_str ''white'')
        (setColor WindowText (QColor_str ''white'') QPalette_new))))))))))))))))\<rparr>\<rparr>)"
    using sample_world_keys by (intro palette_night_result) simp_all
  then have "length (table_roles (snd (private_apply_palette sample_world))) = 12"
    by (simp add: palette_reading)
  moreover have "private_apply_palette (sample_world\<lparr>colors := Map.empty\<rparr>)
      = (Inl (Exception [''no such color:'', ''text-fg'']),
         sample_world\<lparr>colors := Map.empty, app := default_app\<lparr>app_style := Some ''fusion''\<rparr>\<rparr>)"
    by (simp add: private_apply_palette_def and_then_def qcolor_result setStyle_def
        sample_world_def theme_manager_def)
  ultimately show ?thesis
    by (simp add: sample_world_def theme_manager_def default_app_def)
qed

end
